theory Spec2Isabelle
  imports Main "HOL-Library.Char_ord" "HOL-Library.List_Lexorder"
begin

section \<open>Go strings, byte order and the standard-library helpers the package calls\<close>

text \<open>
  A Go string is a sequence of bytes; \<open>string\<close> (a list of 8-bit \<open>char\<close>) is the same
  thing. Go compares strings byte by byte, a proper prefix being smaller: this is the
  lexicographic order of \<open>List_Lexorder\<close> over the byte order of \<open>Char_ord\<close>.
\<close>

text \<open>
  \<open>sort.Strings\<close> (package sort) sorts a slice of strings in increasing order. The order
  on strings is total and antisymmetric, so every sorting algorithm returns the same
  slice; insertion sort stands for it.
\<close>

definition sort_Strings :: "string list \<Rightarrow> string list" where
  "sort_Strings keys = sort keys"

text \<open>
  \<open>strings.Join(elems, sep)\<close>: the empty string for no element, the element itself for
  one, and otherwise the elements with \<open>sep\<close> between neighbours.
\<close>

fun strings_Join :: "string list \<Rightarrow> string \<Rightarrow> string" where
  "strings_Join [] sep = []"
| "strings_Join [x] sep = x"
| "strings_Join (x # y # zs) sep = x @ sep @ strings_Join (y # zs) sep"

subsection \<open>Colours and the text formatter\<close>

text \<open>
  \<open>ansi.Color\<close> lives in a package that is not part of the sources at hand. The two
  constants the code names are constructors; every other colour tag is \<open>ColorCode\<close> of
  its escape code.
\<close>

datatype Color = ColorBlue | ColorGray | ColorCode string

text \<open>
  \<open>TextFormatter\<close> is an interface; the code calls its one method \<open>Colorize(text, color)\<close>.
  An implementation is any function of the two arguments.
\<close>

record TextFormatter =
  Colorize :: "string \<Rightarrow> Color \<Rightarrow> string"

text \<open>
  Colour output disabled: \<open>Colorize\<close> returns its text unchanged, whatever the colour.
\<close>

definition color_disabled :: "TextFormatter \<Rightarrow> bool" where
  "color_disabled tf = (\<forall>t c. Colorize tf t c = t)"

text \<open>A formatter that leaves the text alone, for the concrete runs below.\<close>

definition plain :: TextFormatter where
  "plain = \<lparr>Colorize = (\<lambda>text color. text)\<rparr>"

text \<open>A formatter that marks what it colours, so that the colouring shows in a concrete run.\<close>

definition bracketing :: TextFormatter where
  "bracketing = \<lparr>Colorize = (\<lambda>text color. ''<'' @ text @ ''>'')\<rparr>"

subsection \<open>Maps and their iteration\<close>

text \<open>
  A Go map holds every key once, and \<open>range\<close> visits the entries in an order the
  language leaves open. A map is modelled as the list of its entries in the order one
  particular \<open>range\<close> visits them; the keys of such a list are distinct, and two lists
  with the same entries in different orders are the same map iterated differently.
\<close>

type_synonym Labels = "(string \<times> string) list"

type_synonym Header = "(string \<times> string list) list"

text \<open>The Go index expression \<open>m[key]\<close> on a map of strings: the zero value for a missing key.\<close>

definition index_Labels :: "Labels \<Rightarrow> string \<Rightarrow> string" where
  "index_Labels labels key = (case map_of labels key of None \<Rightarrow> [] | Some v \<Rightarrow> v)"

subsection \<open>http.Header.Get\<close>

text \<open>
  \<open>textproto.CanonicalMIMEHeaderKey\<close>: a key made of header-field (token) bytes only is
  rewritten with the first letter and every letter after a hyphen in upper case and all
  other letters in lower case; a key holding any other byte (a space, say) is returned
  as it is.
\<close>

definition validHeaderFieldByte :: "char \<Rightarrow> bool" where
  "validHeaderFieldByte c =
     ((CHR ''a'' \<le> c \<and> c \<le> CHR ''z'') \<or> (CHR ''A'' \<le> c \<and> c \<le> CHR ''Z'') \<or>
      (CHR ''0'' \<le> c \<and> c \<le> CHR ''9'') \<or> c \<in> set ''!#$%&*+-.^_|~'' \<or> c = CHR 0x27 \<or> c = CHR 0x60)"

definition toUpperASCII :: "char \<Rightarrow> char" where
  "toUpperASCII c = char_of (of_char c - (32::nat))"

definition toLowerASCII :: "char \<Rightarrow> char" where
  "toLowerASCII c = char_of (of_char c + (32::nat))"

fun canonicalize :: "bool \<Rightarrow> string \<Rightarrow> string" where
  "canonicalize upper [] = []"
| "canonicalize upper (c # cs) =
     (let c' = (if upper \<and> CHR ''a'' \<le> c \<and> c \<le> CHR ''z'' then toUpperASCII c
                else if \<not> upper \<and> CHR ''A'' \<le> c \<and> c \<le> CHR ''Z'' then toLowerASCII c
                else c)
      in c' # canonicalize (c' = CHR ''-'') cs)"

definition CanonicalMIMEHeaderKey :: "string \<Rightarrow> string" where
  "CanonicalMIMEHeaderKey s = (if list_all validHeaderFieldByte s then canonicalize True s else s)"

text \<open>
  \<open>Header.Get(key)\<close>: the first value stored under the canonical form of \<open>key\<close>, and the
  empty string when there is none. The lookup canonicalises the key it is given, not the
  keys of the map.
\<close>

definition Header_Get :: "Header \<Rightarrow> string \<Rightarrow> string" where
  "Header_Get header key =
     (case map_of header (CanonicalMIMEHeaderKey key) of
        None \<Rightarrow> []
      | Some [] \<Rightarrow> []
      | Some (v # _) \<Rightarrow> v)"

section \<open>write\_helpers.go: FormatHeaders and FormatLabels\<close>

text \<open>The loop \<open>for key := range m { keys = append(keys, key) }\<close>.\<close>

fun append_keys :: "string list \<Rightarrow> (string \<times> 'v) list \<Rightarrow> string list" where
  "append_keys keys [] = keys"
| "append_keys keys ((key, _) # rest) = append_keys (keys @ [key]) rest"

text \<open>
  The loop \<open>for _, key := range keys { values = append(values, fmt.Sprintf(...)) }\<close>, with
  the formatted entry given by \<open>entry\<close>.
\<close>

fun append_values :: "(string \<Rightarrow> string) \<Rightarrow> string list \<Rightarrow> string list \<Rightarrow> string list" where
  "append_values entry vals [] = vals"
| "append_values entry vals (key # rest) = append_values entry (vals @ [entry key]) rest"

definition FormatHeaders :: "TextFormatter \<Rightarrow> Color \<Rightarrow> Header \<Rightarrow> string" where
  "FormatHeaders tf keyColor header =
     (let keys = sort_Strings (append_keys [] header);
          vals = append_values
                     (\<lambda>key. Colorize tf key keyColor @ '':'' @ Header_Get header key) [] keys
      in ''{ '' @ strings_Join vals '' '' @ '' }'')"

definition FormatLabels :: "TextFormatter \<Rightarrow> Color \<Rightarrow> Labels \<Rightarrow> string" where
  "FormatLabels tf keyColor labels =
     (let keys = sort_Strings (append_keys [] labels);
          vals = append_values
                     (\<lambda>key. Colorize tf key keyColor @ ''='' @ index_Labels labels key) [] keys
      in strings_Join vals '' '')"

section \<open>write\_helpers.go: request and response lines\<close>

text \<open>
  \<open>io.WriteString(wr, s)\<close> hands \<open>s\<close> to the writer; the code drops the count and the
  error it returns. The writer is the sequence of bytes it has received so far.
\<close>

type_synonym Writer = string

definition io_WriteString :: "Writer \<Rightarrow> string \<Rightarrow> Writer" where
  "io_WriteString wr s = wr @ s"

text \<open>
  Modelled from the spec: the package constant \<open>Space\<close> is declared in a file that is
  not part of the sources at hand. The spec has every field followed or separated by
  exactly one space.
\<close>

definition Space :: string where
  "Space = '' ''"

text \<open>
  \<open>url.URL\<close> is used through its \<open>String\<close> method only; a URL is represented by the text
  that method returns. \<open>http.Request\<close> is a struct reached through a pointer: the model
  keeps the two fields the code reads, and \<open>None\<close> is the nil pointer.
\<close>

datatype URL = URL (URL_String: string)

record Request =
  Method :: string
  Url :: "URL option"

text \<open>A panic of the Go runtime; what the writer had received by then is kept with it.\<close>

datatype fault = NilDereference

type_synonym written = "(fault \<times> Writer) + Writer"

text \<open>
  Modelled from the spec: \<open>webutil.GetRemoteAddr\<close>, \<open>ColorizeStatusCodeWithFormatter\<close> and
  \<open>stringutil.FileSize\<close> are functions of this repository whose files are not among the
  sources at hand. The spec says of them that the remote address may be absent (empty),
  that the status code is colourised by class, and that the content size is rendered
  human-readable (42 as 42B). They are taken as parameters, as pure functions that
  return.
\<close>

record Helpers =
  GetRemoteAddr :: "Request option \<Rightarrow> string"
  ColorizeStatusCodeWithFormatter :: "TextFormatter \<Rightarrow> int \<Rightarrow> string"
  FileSize :: "int \<Rightarrow> string"

definition WriteHTTPRequest :: "Helpers \<Rightarrow> TextFormatter \<Rightarrow> Writer \<Rightarrow> Request option \<Rightarrow> written" where
  "WriteHTTPRequest hp tf wr req =
     (let ip = GetRemoteAddr hp req;
          wr = (if length ip > 0 then io_WriteString (io_WriteString wr ip) Space else wr)
      in case req of
           None \<Rightarrow> Inl (NilDereference, wr)
         | Some r \<Rightarrow>
             (let wr = io_WriteString wr (Colorize tf (Method r) ColorBlue)
              in case Url r of
                   Some u \<Rightarrow> Inr (io_WriteString (io_WriteString wr Space) (URL_String u))
                 | None \<Rightarrow> Inr wr))"

subsection \<open>time.Duration.String\<close>

text \<open>
  A \<open>time.Duration\<close> is a signed 64-bit count of nanoseconds. \<open>String\<close> converts it to
  \<open>uint64\<close> and negates a negative one (both modulo \<open>2^64\<close>), then writes the digits from
  the right: below one second in the largest of ns, \<open>\<mu>s\<close>, ms that keeps the integer part
  non-zero, with the fraction's trailing zeros dropped; from one second on as hours,
  minutes and seconds.
\<close>

type_synonym Duration = int

definition Microsecond :: nat where "Microsecond = 1000"
definition Millisecond :: nat where "Millisecond = 1000 * Microsecond"
definition Second :: nat where "Second = 1000 * Millisecond"

definition digit_byte :: "nat \<Rightarrow> char" where
  "digit_byte n = ''0123456789'' ! (n mod 10)"

fun fmtFrac :: "string \<Rightarrow> nat \<Rightarrow> nat \<Rightarrow> bool \<Rightarrow> string \<times> nat" where
  "fmtFrac buf v 0 print = (if print then CHR ''.'' # buf else buf, v)"
| "fmtFrac buf v (Suc prec) print =
     (let digit = v mod 10;
          print = (print \<or> digit \<noteq> 0);
          buf = (if print then digit_byte digit # buf else buf)
      in fmtFrac buf (v div 10) prec print)"

function fmtInt_loop :: "string \<Rightarrow> nat \<Rightarrow> string" where
  "fmtInt_loop buf v = (if v > 0 then fmtInt_loop (digit_byte (v mod 10) # buf) (v div 10) else buf)"
  by pat_completeness auto
termination
  by (relation "measure snd") auto

definition fmtInt :: "string \<Rightarrow> nat \<Rightarrow> string" where
  "fmtInt buf v = (if v = 0 then CHR ''0'' # buf else fmtInt_loop buf v)"

definition Duration_String :: "Duration \<Rightarrow> string" where
  "Duration_String d =
     (let u = nat (d mod 2 ^ 64);
          neg = (d < 0);
          u = (if neg then (2 ^ 64 - u) mod 2 ^ 64 else u);
          buf =
            (if u < Second then
               (if u = 0 then ''0s''
                else
                  (let (prec, buf) =
                         (if u < Microsecond then (0, ''ns'')
                          else if u < Millisecond then (3, [CHR 0xC2, CHR 0xB5, CHR ''s''])
                          else (6, ''ms''));
                       (buf, u) = fmtFrac buf u prec False
                   in fmtInt buf u))
             else
               (let (buf, u) = fmtFrac ''s'' u 9 False;
                    buf = fmtInt buf (u mod 60);
                    u = u div 60
                in if u > 0 then
                     (let buf = fmtInt (CHR ''m'' # buf) (u mod 60);
                          u = u div 60
                      in if u > 0 then fmtInt (CHR ''h'' # buf) u else buf)
                   else buf))
      in if neg then CHR ''-'' # buf else buf)"

text \<open>
  \<open>WriteHTTPResponse\<close> calls \<open>req.URL.String()\<close> without the nil check of
  \<open>WriteHTTPRequest\<close>: a nil URL panics there, after the method has been written.
\<close>

definition WriteHTTPResponse ::
  "Helpers \<Rightarrow> TextFormatter \<Rightarrow> Writer \<Rightarrow> Request option \<Rightarrow> int \<Rightarrow> int \<Rightarrow> string \<Rightarrow> Duration \<Rightarrow> written"
where
  "WriteHTTPResponse hp tf wr req statusCode contentLength contentType elapsed =
     (let ip = GetRemoteAddr hp req;
          wr = (if length ip > 0 then io_WriteString (io_WriteString wr ip) Space else wr)
      in case req of
           None \<Rightarrow> Inl (NilDereference, wr)
         | Some r \<Rightarrow>
             (let wr = io_WriteString wr (Colorize tf (Method r) ColorBlue);
                  wr = io_WriteString wr Space
              in case Url r of
                   None \<Rightarrow> Inl (NilDereference, wr)
                 | Some u \<Rightarrow>
                     (let wr = io_WriteString wr (URL_String u);
                          wr = io_WriteString wr Space;
                          wr = io_WriteString wr (ColorizeStatusCodeWithFormatter hp tf statusCode);
                          wr = io_WriteString wr Space;
                          wr = io_WriteString wr (Duration_String elapsed);
                          wr = (if length contentType > 0
                                then io_WriteString (io_WriteString wr Space) contentType
                                else wr);
                          wr = io_WriteString wr Space;
                          wr = io_WriteString wr (FileSize hp contentLength)
                      in Inr wr)))"

section \<open>audit\_event.go: the event, its mutators and its text rendering\<close>

text \<open>
  Modelled from the spec: \<open>EventMeta\<close> is declared in a file that is not part of the
  sources at hand. The code reaches it through the embedded pointer and calls its
  \<open>Decompose\<close> method only, so the metadata is represented by the key-value entries that
  method returns (the spec names \<open>flag\<close> and \<open>ts\<close> as examples); \<open>go_value\<close> is the part of
  \<open>interface{}\<close> such a decomposition holds: strings, maps of strings (nil or not) and
  nested decompositions.
\<close>

datatype go_value =
    GoString string
  | GoStringMap "(string \<times> string) list option"
  | GoMap "(string \<times> go_value) list"

datatype EventMeta = EventMeta (Decompose: "(string \<times> go_value) list")

text \<open>
  The struct. \<open>EventMeta\<close> is the embedded pointer (\<open>None\<close> is nil); \<open>Extra\<close> is a map, nil
  (\<open>None\<close>) or the list of its entries in iteration order.
\<close>

record AuditEvent =
  EventMeta_ptr :: "EventMeta option"
  Context :: string
  Principal :: string
  Verb :: string
  Noun :: string
  Subject :: string
  Property :: string
  RemoteAddress :: string
  UserAgent :: string
  Extra :: "(string \<times> string) list option"

definition len_map :: "('k \<times> 'v) list option \<Rightarrow> nat" where
  "len_map m = (case m of None \<Rightarrow> 0 | Some entries \<Rightarrow> length entries)"

definition range_map :: "('k \<times> 'v) list option \<Rightarrow> ('k \<times> 'v) list" where
  "range_map m = (case m of None \<Rightarrow> [] | Some entries \<Rightarrow> entries)"

subsection \<open>The With* mutators\<close>

text \<open>
  The mutators have pointer receivers: they write one field of the struct the receiver
  points to and return the receiver. The store maps the address of every live
  \<open>AuditEvent\<close> to its value; a pointer is nil (\<open>None\<close>) or an address. Writing through
  nil panics.
\<close>

type_synonym addr = nat

type_synonym store = "addr \<rightharpoonup> AuditEvent"

definition assign_field ::
  "(AuditEvent \<Rightarrow> AuditEvent) \<Rightarrow> store \<Rightarrow> addr option \<Rightarrow> fault + (addr option \<times> store)" where
  "assign_field upd st e =
     (case e of
        None \<Rightarrow> Inl NilDereference
      | Some a \<Rightarrow>
          (case st a of
             None \<Rightarrow> Inl NilDereference
           | Some ev \<Rightarrow> Inr (e, st(a \<mapsto> upd ev))))"

definition WithContext :: "store \<Rightarrow> addr option \<Rightarrow> string \<Rightarrow> fault + (addr option \<times> store)" where
  "WithContext st e context' = assign_field (\<lambda>ev. ev\<lparr>Context := context'\<rparr>) st e"

definition WithPrincipal :: "store \<Rightarrow> addr option \<Rightarrow> string \<Rightarrow> fault + (addr option \<times> store)" where
  "WithPrincipal st e principal' = assign_field (\<lambda>ev. ev\<lparr>Principal := principal'\<rparr>) st e"

definition WithVerb :: "store \<Rightarrow> addr option \<Rightarrow> string \<Rightarrow> fault + (addr option \<times> store)" where
  "WithVerb st e verb = assign_field (\<lambda>ev. ev\<lparr>Verb := verb\<rparr>) st e"

definition WithNoun :: "store \<Rightarrow> addr option \<Rightarrow> string \<Rightarrow> fault + (addr option \<times> store)" where
  "WithNoun st e noun = assign_field (\<lambda>ev. ev\<lparr>Noun := noun\<rparr>) st e"

definition WithSubject :: "store \<Rightarrow> addr option \<Rightarrow> string \<Rightarrow> fault + (addr option \<times> store)" where
  "WithSubject st e subject = assign_field (\<lambda>ev. ev\<lparr>Subject := subject\<rparr>) st e"

definition WithProperty :: "store \<Rightarrow> addr option \<Rightarrow> string \<Rightarrow> fault + (addr option \<times> store)" where
  "WithProperty st e property = assign_field (\<lambda>ev. ev\<lparr>Property := property\<rparr>) st e"

definition WithRemoteAddress :: "store \<Rightarrow> addr option \<Rightarrow> string \<Rightarrow> fault + (addr option \<times> store)" where
  "WithRemoteAddress st e remoteAddr = assign_field (\<lambda>ev. ev\<lparr>RemoteAddress := remoteAddr\<rparr>) st e"

definition WithUserAgent :: "store \<Rightarrow> addr option \<Rightarrow> string \<Rightarrow> fault + (addr option \<times> store)" where
  "WithUserAgent st e userAgent = assign_field (\<lambda>ev. ev\<lparr>UserAgent := userAgent\<rparr>) st e"

definition WithExtra ::
  "store \<Rightarrow> addr option \<Rightarrow> (string \<times> string) list option \<Rightarrow> fault + (addr option \<times> store)" where
  "WithExtra st e extra = assign_field (\<lambda>ev. ev\<lparr>Extra := extra\<rparr>) st e"

subsection \<open>WriteText\<close>

text \<open>
  \<open>WriteText\<close> has a value receiver: it reads a copy of the struct. The last block joins
  one \<open>key:value\<close> token per entry of \<open>Extra\<close>, in the order \<open>range\<close> yields them.
\<close>

fun append_extra :: "TextFormatter \<Rightarrow> string list \<Rightarrow> (string \<times> string) list \<Rightarrow> string list" where
  "append_extra formatter vals [] = vals"
| "append_extra formatter vals ((key, v) # rest) =
     append_extra formatter (vals @ [Colorize formatter (key @ '':'') ColorGray @ v]) rest"

definition WriteText :: "AuditEvent \<Rightarrow> TextFormatter \<Rightarrow> Writer \<Rightarrow> Writer" where
  "WriteText e formatter wr =
     (let wr = (if length (Context e) > 0 then
                  io_WriteString (io_WriteString (io_WriteString wr
                    (Colorize formatter ''Context:'' ColorGray)) (Context e)) Space
                else wr);
          wr = (if length (Principal e) > 0 then
                  io_WriteString (io_WriteString (io_WriteString wr
                    (Colorize formatter ''Principal:'' ColorGray)) (Principal e)) Space
                else wr);
          wr = (if length (Verb e) > 0 then
                  io_WriteString (io_WriteString (io_WriteString wr
                    (Colorize formatter ''Verb:'' ColorGray)) (Verb e)) Space
                else wr);
          wr = (if length (Noun e) > 0 then
                  io_WriteString (io_WriteString (io_WriteString wr
                    (Colorize formatter ''Noun:'' ColorGray)) (Noun e)) Space
                else wr);
          wr = (if length (Subject e) > 0 then
                  io_WriteString (io_WriteString (io_WriteString wr
                    (Colorize formatter ''Subject:'' ColorGray)) (Subject e)) Space
                else wr);
          wr = (if length (Property e) > 0 then
                  io_WriteString (io_WriteString (io_WriteString wr
                    (Colorize formatter ''Property:'' ColorGray)) (Property e)) Space
                else wr);
          wr = (if length (RemoteAddress e) > 0 then
                  io_WriteString (io_WriteString (io_WriteString wr
                    (Colorize formatter ''Remote Addr:'' ColorGray)) (RemoteAddress e)) Space
                else wr);
          wr = (if length (UserAgent e) > 0 then
                  io_WriteString (io_WriteString (io_WriteString wr
                    (Colorize formatter ''UA:'' ColorGray)) (UserAgent e)) Space
                else wr)
      in if len_map (Extra e) > 0 then
           io_WriteString wr (strings_Join (append_extra formatter [] (range_map (Extra e))) '' '')
         else wr)"

subsection \<open>The typed listener\<close>

text \<open>
  An \<open>Event\<close> is an interface value: nil, or a value of some dynamic type. The type
  assertion \<open>e.(*AuditEvent)\<close> holds exactly when the dynamic type is \<open>*AuditEvent\<close> (the
  pointer may itself be nil); a struct held by value and every other event type fail
  it. The wrapped callback is any code: it takes the world from one state to another or
  panics, and a nil function value panics when called.
\<close>

datatype 'o Event =
    NilEvent
  | AuditEventPtr "addr option"
  | AuditEventValue AuditEvent
  | OtherEvent 'o

definition NewAuditEventListener ::
  "('c \<Rightarrow> addr option \<Rightarrow> 's \<Rightarrow> fault + 's) option \<Rightarrow> 'c \<Rightarrow> 'o Event \<Rightarrow> 's \<Rightarrow> fault + 's" where
  "NewAuditEventListener listener =
     (\<lambda>ctx e s.
        case e of
          AuditEventPtr typed \<Rightarrow>
            (case listener of None \<Rightarrow> Inl NilDereference | Some f \<Rightarrow> f ctx typed s)
        | _ \<Rightarrow> Inr s)"

section \<open>Properties of FormatHeaders and FormatLabels\<close>

lemma append_keys_eq: "append_keys keys m = keys @ map fst m"
  by (induction keys m rule: append_keys.induct) simp_all

lemma append_values_eq: "append_values entry vals keys = vals @ map entry keys"
  by (induction keys arbitrary: vals) simp_all

lemma FormatHeaders_eq:
  "FormatHeaders tf keyColor H =
     ''{ '' @ strings_Join (map (\<lambda>key. Colorize tf key keyColor @ '':'' @ Header_Get H key)
                              (sort (map fst H))) '' '' @ '' }''"
  by (simp add: FormatHeaders_def sort_Strings_def append_keys_eq append_values_eq)

lemma FormatLabels_eq:
  "FormatLabels tf keyColor L =
     strings_Join (map (\<lambda>key. Colorize tf key keyColor @ ''='' @ index_Labels L key)
                       (sort (map fst L))) '' ''"
  by (simp add: FormatLabels_def sort_Strings_def append_keys_eq append_values_eq)

text \<open>The sorted keys of a map are the strictly ascending enumeration of its key set.\<close>

lemma sort_distinct_keys:
  fixes m :: "(string \<times> 'v) list"
  assumes "distinct (map fst m)"
  shows "sort (map fst m) = sorted_list_of_set (fst ` set m)"
proof -
  have "sorted_list_of_set (set (map fst m)) = sort (remdups (map fst m))"
    by (rule sorted_list_of_set_sort_remdups)
  with assms show ?thesis by (simp add: distinct_remdups_id)
qed

lemma map_insort_key: "map f (insort_key f x xs) = insort (f x) (map f xs)"
  by (induction xs) simp_all

lemma map_sort_key: "map f (sort_key f xs) = sort (map f xs)"
  by (induction xs) (simp_all add: map_insort_key)

lemma index_Labels_entry:
  "distinct (map fst L) \<Longrightarrow> (key, v) \<in> set L \<Longrightarrow> index_Labels L key = v"
  by (simp add: index_Labels_def)

text \<open>
  C10. \<open>FormatHeaders\<close> of the empty header map is exactly \<open>{  }\<close> (brace, two spaces,
  brace), and \<open>FormatLabels\<close> of the empty label map is the empty string, for every
  formatter and key colour.
\<close>

theorem FormatHeaders_empty_FormatLabels_empty:
  "FormatHeaders tf keyColor [] = ''{  }'' \<and> FormatLabels tf keyColor [] = []"
  by (simp add: FormatHeaders_def FormatLabels_def sort_Strings_def)

text \<open>
  C2. For every header map \<open>H\<close> (its keys distinct, as in every Go map), whatever the
  order in which its entries are visited: the output of \<open>FormatHeaders\<close> is \<open>{\<close>, a space,
  one token \<open>key:value\<close> per key joined by single spaces, a space and \<open>}\<close>, where the keys
  run through the strictly ascending enumeration of the key set of \<open>H\<close>, each key is
  passed through \<open>Colorize\<close> with the key colour, and the value is what \<open>Header.Get\<close>
  returns for the key. Any other visiting order \<open>H'\<close> of the same entries gives the same
  string.
\<close>

theorem FormatHeaders_keys_ascending:
  assumes "distinct (map fst H)"
  shows "sorted_wrt (<) (sorted_list_of_set (fst ` set H)) \<and>
         set (sorted_list_of_set (fst ` set H)) = fst ` set H \<and>
         FormatHeaders tf keyColor H =
           ''{ '' @ strings_Join
                      (map (\<lambda>key. Colorize tf key keyColor @ '':'' @ Header_Get H key)
                           (sorted_list_of_set (fst ` set H))) '' '' @ '' }'' \<and>
         (\<forall>H'. distinct (map fst H') \<and> set H' = set H \<longrightarrow>
                FormatHeaders tf keyColor H' = FormatHeaders tf keyColor H)"
proof (intro conjI allI impI)
  show "sorted_wrt (<) (sorted_list_of_set (fst ` set H))"
    by (rule strict_sorted_list_of_set)
  show "set (sorted_list_of_set (fst ` set H)) = fst ` set H"
    by simp
  show "FormatHeaders tf keyColor H =
           ''{ '' @ strings_Join
                      (map (\<lambda>key. Colorize tf key keyColor @ '':'' @ Header_Get H key)
                           (sorted_list_of_set (fst ` set H))) '' '' @ '' }''"
    using assms by (simp only: FormatHeaders_eq sort_distinct_keys)
next
  fix H' :: Header
  assume h: "distinct (map fst H') \<and> set H' = set H"
  then have "map_of H' = map_of H"
    using assms by (simp add: map_of_inject_set)
  then have "Header_Get H' = Header_Get H"
    by (auto simp: Header_Get_def fun_eq_iff)
  moreover have "sort (map fst H') = sort (map fst H)"
    using h assms by (simp add: sort_distinct_keys)
  ultimately show "FormatHeaders tf keyColor H' = FormatHeaders tf keyColor H"
    by (simp only: FormatHeaders_eq)
qed

text \<open>
  A run of C2: three headers visited in the order Host, Accept, Content-Type, and the
  same three visited in another order.
\<close>

theorem FormatHeaders_keys_ascending_witness:
  "distinct (map fst [(''Host'', [''example.com'']), (''Accept'', [''text/html'']),
                      (''Content-Type'', [''text/plain''])]) \<and>
   sorted_list_of_set (fst ` set [(''Host'', [''example.com'']), (''Accept'', [''text/html'']),
                      (''Content-Type'', [''text/plain''])]) = [''Accept'', ''Content-Type'', ''Host''] \<and>
   FormatHeaders bracketing ColorBlue
     [(''Host'', [''example.com'']), (''Accept'', [''text/html'']), (''Content-Type'', [''text/plain''])]
   = ''{ <Accept>:text/html <Content-Type>:text/plain <Host>:example.com }'' \<and>
   FormatHeaders bracketing ColorBlue
     [(''Content-Type'', [''text/plain'']), (''Host'', [''example.com'']), (''Accept'', [''text/html''])]
   = FormatHeaders bracketing ColorBlue
     [(''Host'', [''example.com'']), (''Accept'', [''text/html'']), (''Content-Type'', [''text/plain''])]"
proof -
  let ?H = "[(''Host'', [''example.com'']), (''Accept'', [''text/html'']),
             (''Content-Type'', [''text/plain''])]"
  let ?H' = "[(''Content-Type'', [''text/plain'']), (''Host'', [''example.com'']),
              (''Accept'', [''text/html''])]"
  have d: "distinct (map fst ?H)"
    by simp
  have d': "distinct (map fst ?H') \<and> set ?H' = set ?H"
    by auto
  have "\<forall>H'. distinct (map fst H') \<and> set H' = set ?H \<longrightarrow>
          FormatHeaders bracketing ColorBlue H' = FormatHeaders bracketing ColorBlue ?H"
    using FormatHeaders_keys_ascending [OF d, of bracketing ColorBlue] by blast
  with d' have same: "FormatHeaders bracketing ColorBlue ?H' = FormatHeaders bracketing ColorBlue ?H"
    by blast
  have keys: "sorted_list_of_set (fst ` set ?H) = [''Accept'', ''Content-Type'', ''Host'']"
    by code_simp
  have out: "FormatHeaders bracketing ColorBlue ?H
               = ''{ <Accept>:text/html <Content-Type>:text/plain <Host>:example.com }''"
    by code_simp
  from d keys out same show ?thesis
    by (intro conjI)
qed

text \<open>
  C6. Where an entry of the header map has the values \<open>v, others...\<close> under its key, the
  output of \<open>FormatHeaders\<close> is the output for the map in which that entry has the single
  value \<open>v\<close>: nothing of the values beyond the first reaches the string. What is rendered
  for a key is what \<open>Header.Get\<close> returns for it, which for a key in canonical form is
  the first value \<open>v\<close>.
\<close>

theorem FormatHeaders_first_value_only:
  "FormatHeaders tf keyColor (H1 @ (key, v # others) # H2) =
     FormatHeaders tf keyColor (H1 @ (key, [v]) # H2) \<and>
   (CanonicalMIMEHeaderKey key = key \<and> key \<notin> fst ` set H1 \<longrightarrow>
      Header_Get (H1 @ (key, v # others) # H2) key = v)"
proof (intro conjI impI)
  have "Header_Get (H1 @ (key, v # others) # H2) k = Header_Get (H1 @ (key, [v]) # H2) k" for k
    by (simp add: Header_Get_def map_add_def split: option.splits list.splits)
  then show "FormatHeaders tf keyColor (H1 @ (key, v # others) # H2) =
     FormatHeaders tf keyColor (H1 @ (key, [v]) # H2)"
    by (simp add: FormatHeaders_eq)
next
  assume a: "CanonicalMIMEHeaderKey key = key \<and> key \<notin> fst ` set H1"
  then have "map_of H1 key = None"
    by (simp add: map_of_eq_None_iff)
  with a show "Header_Get (H1 @ (key, v # others) # H2) key = v"
    by (simp add: Header_Get_def map_add_def)
qed

text \<open>A run of C6: Accept carries three values, and only the first is rendered.\<close>

theorem FormatHeaders_first_value_only_witness:
  "CanonicalMIMEHeaderKey ''Accept'' = ''Accept'' \<and> ''Accept'' \<notin> fst ` set [(''Host'', [''example.com''])] \<and>
   Header_Get ([(''Host'', [''example.com''])] @ (''Accept'', ''text/html'' # [''text/plain'', ''*/*'']) # []) ''Accept''
     = ''text/html'' \<and>
   FormatHeaders plain ColorBlue
     ([(''Host'', [''example.com''])] @ (''Accept'', ''text/html'' # [''text/plain'', ''*/*'']) # [])
   = ''{ Accept:text/html Host:example.com }''"
  using FormatHeaders_first_value_only
          [of plain ColorBlue "[(''Host'', [''example.com''])]" "''Accept''" "''text/html''"
              "[''text/plain'', ''*/*'']" "[]"]
  by code_simp

text \<open>
  C7. For label maps (keys distinct, as in every Go map), \<open>FormatLabels\<close> depends on the
  key-value contents only: two entry lists that are the same mapping, in whatever order
  they are visited, give the same string. That string is one token \<open>key=value\<close> per
  entry, the key passed through \<open>Colorize\<close>, the entries in strictly ascending order of
  their keys, joined by single spaces.
\<close>

theorem FormatLabels_order_independent:
  assumes "distinct (map fst L)" and "distinct (map fst L')" and "map_of L' = map_of L"
  shows "FormatLabels tf keyColor L' = FormatLabels tf keyColor L \<and>
         FormatLabels tf keyColor L =
           strings_Join (map (\<lambda>(key, v). Colorize tf key keyColor @ ''='' @ v) (sort_key fst L)) '' '' \<and>
         sorted_wrt (<) (map fst (sort_key fst L))"
proof (intro conjI)
  have "set L' = set L"
    using assms by (simp add: map_of_inject_set)
  then have "sort (map fst L') = sort (map fst L)"
    using assms by (simp add: sort_distinct_keys)
  moreover have "index_Labels L' = index_Labels L"
    using assms(3) by (simp add: index_Labels_def fun_eq_iff)
  ultimately show "FormatLabels tf keyColor L' = FormatLabels tf keyColor L"
    by (simp only: FormatLabels_eq)
next
  have "map (\<lambda>key. Colorize tf key keyColor @ ''='' @ index_Labels L key) (map fst (sort_key fst L))
        = map (\<lambda>(key, v). Colorize tf key keyColor @ ''='' @ v) (sort_key fst L)"
    using assms(1) by (auto simp: index_Labels_entry)
  then show "FormatLabels tf keyColor L =
           strings_Join (map (\<lambda>(key, v). Colorize tf key keyColor @ ''='' @ v) (sort_key fst L)) '' ''"
    by (simp only: FormatLabels_eq map_sort_key)
next
  have "map fst (sort_key fst L) = sorted_list_of_set (fst ` set L)"
    using assms(1) by (simp add: map_sort_key sort_distinct_keys)
  then show "sorted_wrt (<) (map fst (sort_key fst L))"
    by (simp only: strict_sorted_list_of_set)
qed

text \<open>A run of C7: the labels env, app and zone, visited in two different orders.\<close>

theorem FormatLabels_order_independent_witness:
  "distinct (map fst [(''env'', ''prod''), (''app'', ''api''), (''zone'', ''b'')]) \<and>
   distinct (map fst [(''zone'', ''b''), (''env'', ''prod''), (''app'', ''api'')]) \<and>
   FormatLabels bracketing ColorBlue [(''zone'', ''b''), (''env'', ''prod''), (''app'', ''api'')]
     = ''<app>=api <env>=prod <zone>=b'' \<and>
   FormatLabels bracketing ColorBlue [(''env'', ''prod''), (''app'', ''api''), (''zone'', ''b'')]
     = ''<app>=api <env>=prod <zone>=b''"
proof -
  have same: "map_of [(''zone'', ''b''), (''env'', ''prod''), (''app'', ''api'')]
          = map_of [(''env'', ''prod''), (''app'', ''api''), (''zone'', ''b'')]"
    by (rule map_of_inject_set [THEN iffD2]) auto
  have d1: "distinct (map fst [(''env'', ''prod''), (''app'', ''api''), (''zone'', ''b'')])"
    by simp
  have d2: "distinct (map fst [(''zone'', ''b''), (''env'', ''prod''), (''app'', ''api'')])"
    by simp
  show ?thesis
    using FormatLabels_order_independent [OF d1 d2 same, of bracketing ColorBlue]
    by code_simp
qed

end
